theory Spec2Isabelle
  imports Main "HOL-Library.AList"
begin

section \<open>Python values shared by the example scripts\<close>

text \<open>
  The scripts under \<^verbatim>\<open>examples/\<close> are small GUI programs. Their pure parts are
  embedded as HOL functions; what they do beyond returning a value (pop-up windows, the
  call of the export routine) is recorded in a list of events, in program order. A raised
  Python exception is the \<open>Inl\<close> side of a sum.
\<close>

datatype py_error =
    NameError string          \<comment> \<open>a name that is not bound at run time\<close>
  | LibraryError string       \<comment> \<open>any exception raised inside an imported library\<close>

text \<open>
  \<^verbatim>\<open>datetime.datetime\<close> values as \<^verbatim>\<open>strptime\<close> builds them from the
  format \<^verbatim>\<open>'%d.%m.%Y'\<close>: the time of day is always 00:00:00 and is left out.
\<close>

record datetime =
  dt_year :: nat
  dt_month :: nat
  dt_day :: nat

section \<open>examples/complete\_sql.pyw\<close>

subsection \<open>\<^verbatim>\<open>str.replace\<close>\<close>

text \<open>
  Python's \<^verbatim>\<open>s.replace(old, new)\<close>: every non-overlapping occurrence of
  \<open>old\<close>, scanning from the left. For an empty \<open>old\<close> Python puts \<open>new\<close> before
  every character and at the end.
\<close>

function str_replace :: "string \<Rightarrow> string \<Rightarrow> string \<Rightarrow> string" where
  "str_replace old new s =
     (if old = [] then new @ concat (map (\<lambda>c. c # new) s)
      else if s = [] then []
      else if take (length old) s = old
           then new @ str_replace old new (drop (length old) s)
      else hd s # str_replace old new (tl s))"
  by pat_completeness auto
termination
  by (relation "measure (\<lambda>(old, new, s). length s)") auto

declare str_replace.simps [simp del]

subsection \<open>\<^verbatim>\<open>prettyPrintSQL\<close>\<close>

text \<open>
  The two formatting libraries are imported inside \<^verbatim>\<open>try: ... except: pass\<close>, so
  either may be missing at run time, and either may raise on its input. Both are taken
  as parameters: each entry returns the formatted text or the exception it raises (a
  missing module is the \<open>NameError\<close> of its unbound name).
  \<^item> \<open>sqlfmt_format_string\<close> is \<^verbatim>\<open>sqlfmt.api.format_string(sql, Mode(dialect_name="ClickHouse"))\<close>;
  \<^item> \<open>sqlparse_reindent\<close> is \<^verbatim>\<open>sqlparse.format(sql, reindent=True, keyword_case='upper')\<close>;
  \<^item> \<open>sqlparse_reindent_aligned\<close> is \<^verbatim>\<open>sqlparse.format(sql, reindent_aligned=True, keyword_case='upper')\<close>.
\<close>

record sql_formatters =
  sqlfmt_format_string :: "string \<Rightarrow> py_error + string"
  sqlparse_reindent :: "string \<Rightarrow> py_error + string"
  sqlparse_reindent_aligned :: "string \<Rightarrow> py_error + string"

text \<open>
  The body of the \<^verbatim>\<open>try\<close> block (lines 27 to 36), branch by branch in the order of
  the \<^verbatim>\<open>if\<close>/\<^verbatim>\<open>elif\<close> chain. The string constant fix of line 30 replaces
  \<^verbatim>\<open>N '\<close> by \<^verbatim>\<open>N'\<close>.
\<close>

definition prettyPrintSQL_body :: "sql_formatters \<Rightarrow> string \<Rightarrow> string \<Rightarrow> py_error + string" where
  "prettyPrintSQL_body F fmt sql =
     (if fmt = ''sqlfmt'' then
        (case sqlfmt_format_string F sql of
           Inl e \<Rightarrow> Inl e
         | Inr sqlPretty \<Rightarrow> Inr (str_replace [CHR ''N'', CHR '' '', CHR 0x27] [CHR ''N'', CHR 0x27] sqlPretty))
      else if fmt = ''sqlparse-2'' then sqlparse_reindent F sql
      else if fmt = ''sqlparse'' then sqlparse_reindent_aligned F sql
      else Inr sql)"

text \<open>
  The handler is written \<^verbatim>\<open>except e:\<close> (line 37), not \<^verbatim>\<open>except Exception as e:\<close>.
  Python evaluates the expression \<^verbatim>\<open>e\<close> only when an exception reaches the handler;
  no such name is bound in the module, so the evaluation raises \<open>NameError\<close> and the
  lines 38 and 39 are never run. A body that returns is not affected.
\<close>

definition prettyPrintSQL :: "sql_formatters \<Rightarrow> string \<Rightarrow> string \<Rightarrow> py_error + string" where
  "prettyPrintSQL F fmt sql =
     (case prettyPrintSQL_body F fmt sql of
        Inl _ \<Rightarrow> Inl (NameError ''e'')
      | Inr r \<Rightarrow> Inr r)"

section \<open>examples/mengenabweichung\_gui.pyw\<close>

subsection \<open>Effects\<close>

text \<open>
  What the script shows or calls, in program order. The texts of the pop-ups are fixed
  German sentences around the values kept here:
  \<^item> \<open>PopupParseError s\<close> is \<^verbatim>\<open>sg.popup_error("Fehler beim Parsen des Datums '{}'".format(s))\<close>;
  \<^item> \<open>PopupNoFile\<close> is the \<^verbatim>\<open>sg.popup_error\<close> of line 35 (no output file chosen);
  \<^item> \<open>ExportCall f von bis\<close> is the call \<^verbatim>\<open>mengenabweichung.exportVonBis(server, f, von, bis)\<close>;
  \<^item> \<open>PopupOk c p\<close> is the \<^verbatim>\<open>sg.popup_ok\<close> of line 41 with the count \<open>c\<close> and the path \<open>p\<close>.
\<close>

datatype event =
    PopupParseError string
  | PopupNoFile
  | ExportCall string "datetime option" "datetime option"
  | PopupOk int string

subsection \<open>\<^verbatim>\<open>parseDate\<close>\<close>

text \<open>
  \<^verbatim>\<open>datetime.datetime.strptime(dateS, '%d.%m.%Y')\<close> is a library call; it is the
  parameter \<open>strptime\<close>, \<open>None\<close> when the call raises. The bare \<^verbatim>\<open>except:\<close> of
  line 23 catches whatever it raises. The argument is \<^verbatim>\<open>values.get(key, None)\<close> in
  \<^verbatim>\<open>main\<close>, hence a \<open>string option\<close>. The pop-up of line 24 is an event; the call
  is taken to return.
\<close>

definition parseDate ::
  "(string \<Rightarrow> datetime option) \<Rightarrow> string option \<Rightarrow> (datetime option \<times> bool) \<times> event list" where
  "parseDate strptime dateS =
     (case dateS of
        None \<Rightarrow> ((None, True), [])
      | Some s \<Rightarrow>
          if s = '''' then ((None, True), [])
          else (case strptime s of
                  Some d \<Rightarrow> ((Some d, True), [])
                | None \<Rightarrow> ((None, False), [PopupParseError s])))"

subsection \<open>The library's \<^verbatim>\<open>strptime\<close> on the format \<^verbatim>\<open>'%d.%m.%Y'\<close>\<close>

text \<open>
  A model of CPython's \<^verbatim>\<open>datetime.datetime.strptime(s, '%d.%m.%Y')\<close> on ASCII
  input, used to run \<^verbatim>\<open>parseDate\<close> on concrete strings; the theorems below hold for
  every \<open>strptime\<close>. The library turns the format into the regular expression
  \<^verbatim>\<open>(3[0-1]|[1-2]\d|0[1-9]|[1-9]| [1-9])\.(1[0-2]|0[1-9]|[1-9])\.(\d\d\d\d)\<close>,
  matches it at the start of the string, raises \<^verbatim>\<open>ValueError\<close> when there is no match
  or when text remains after the match, and then builds the date, which raises
  \<^verbatim>\<open>ValueError\<close> for the year 0 and for a day the month does not have. Each
  \<open>re_\<close> function lists the ways its group can match a prefix, in the order of the
  alternatives, with the text that is left.
\<close>

definition is_digit :: "char \<Rightarrow> bool" where
  "is_digit c = (48 \<le> (of_char c :: nat) \<and> (of_char c :: nat) \<le> 57)"

definition digit_val :: "char \<Rightarrow> nat" where
  "digit_val c = of_char c - 48"

definition is_digit_1_9 :: "char \<Rightarrow> bool" where
  "is_digit_1_9 c = (is_digit c \<and> c \<noteq> CHR ''0'')"

definition re_d :: "string \<Rightarrow> (nat \<times> string) list" where
  "re_d s =
     (case s of
        a # b # r \<Rightarrow>
          (if a = CHR ''3'' \<and> (b = CHR ''0'' \<or> b = CHR ''1'') then [(30 + digit_val b, r)] else []) @
          (if (a = CHR ''1'' \<or> a = CHR ''2'') \<and> is_digit b then [(10 * digit_val a + digit_val b, r)] else []) @
          (if a = CHR ''0'' \<and> is_digit_1_9 b then [(digit_val b, r)] else [])
      | _ \<Rightarrow> []) @
     (case s of a # r \<Rightarrow> if is_digit_1_9 a then [(digit_val a, r)] else [] | _ \<Rightarrow> []) @
     (case s of
        a # b # r \<Rightarrow> if a = CHR '' '' \<and> is_digit_1_9 b then [(digit_val b, r)] else []
      | _ \<Rightarrow> [])"

definition re_m :: "string \<Rightarrow> (nat \<times> string) list" where
  "re_m s =
     (case s of
        a # b # r \<Rightarrow>
          (if a = CHR ''1'' \<and> (b = CHR ''0'' \<or> b = CHR ''1'' \<or> b = CHR ''2'') then [(10 + digit_val b, r)] else []) @
          (if a = CHR ''0'' \<and> is_digit_1_9 b then [(digit_val b, r)] else [])
      | _ \<Rightarrow> []) @
     (case s of a # r \<Rightarrow> if is_digit_1_9 a then [(digit_val a, r)] else [] | _ \<Rightarrow> [])"

definition re_Y :: "string \<Rightarrow> (nat \<times> string) list" where
  "re_Y s =
     (case s of
        a # b # c # d # r \<Rightarrow>
          if is_digit a \<and> is_digit b \<and> is_digit c \<and> is_digit d
          then [(1000 * digit_val a + 100 * digit_val b + 10 * digit_val c + digit_val d, r)]
          else []
      | _ \<Rightarrow> [])"

definition re_dot :: "string \<Rightarrow> string list" where
  "re_dot s = (case s of a # r \<Rightarrow> if a = CHR ''.'' then [r] else [] | _ \<Rightarrow> [])"

definition is_leap :: "nat \<Rightarrow> bool" where
  "is_leap y = (y mod 4 = 0 \<and> (y mod 100 \<noteq> 0 \<or> y mod 400 = 0))"

definition days_in_month :: "nat \<Rightarrow> nat \<Rightarrow> nat" where
  "days_in_month y m =
     (if m = 2 then (if is_leap y then 29 else 28)
      else if m = 4 \<or> m = 6 \<or> m = 9 \<or> m = 11 then 30 else 31)"

definition strptime_dmY :: "string \<Rightarrow> datetime option" where
  "strptime_dmY s =
     (case [(d, m, y, r5). (d, r1) \<leftarrow> re_d s, r2 \<leftarrow> re_dot r1, (m, r3) \<leftarrow> re_m r2,
                           r4 \<leftarrow> re_dot r3, (y, r5) \<leftarrow> re_Y r4] of
        [] \<Rightarrow> None
      | (d, m, y, rest) # _ \<Rightarrow>
          if rest \<noteq> [] then None
          else if y < 1 then None
          else if days_in_month y m < d then None
          else Some \<lparr>dt_year = y, dt_month = m, dt_day = d\<rparr>)"

subsection \<open>\<^verbatim>\<open>createFile\<close>\<close>

text \<open>
  The module \<^verbatim>\<open>mengenabweichung\<close> and \<^verbatim>\<open>pathlib\<close> are not part of the script; what
  \<^verbatim>\<open>createFile\<close> uses of them is a parameter:
  \<^item> \<open>lib_strptime\<close> as above;
  \<^item> \<open>path_as_posix\<close> is \<^verbatim>\<open>pathlib.Path(fileS).as_posix()\<close> and \<open>path_str\<close> is
    \<^verbatim>\<open>str(pathlib.Path(fileS))\<close>;
  \<^item> \<open>exportVonBis\<close> returns the number of records written, or raises.
\<close>

record 'srv gui_env =
  lib_strptime :: "string \<Rightarrow> datetime option"
  path_as_posix :: "string \<Rightarrow> string"
  path_str :: "string \<Rightarrow> string"
  exportVonBis :: "'srv \<Rightarrow> string \<Rightarrow> datetime option \<Rightarrow> datetime option \<Rightarrow> py_error + int"

text \<open>
  The result is the function's outcome (\<open>Inr ()\<close> for a return, \<open>Inl\<close> for an exception
  that leaves the function) and the events up to that point. An exception of
  \<^verbatim>\<open>exportVonBis\<close> is not caught here (\<^verbatim>\<open>main\<close> catches it).
\<close>

definition createFile ::
  "'srv gui_env \<Rightarrow> 'srv \<Rightarrow> string option \<Rightarrow> string option \<Rightarrow> string option
     \<Rightarrow> (py_error + unit) \<times> event list" where
  "createFile E server fileS vonS bisS =
     (let ((von, vonOK), ev1) = parseDate (lib_strptime E) vonS in
      if \<not> vonOK then (Inr (), ev1)
      else
        let ((bis, bisOK), ev2) = parseDate (lib_strptime E) bisS in
        if \<not> bisOK then (Inr (), ev1 @ ev2)
        else if fileS = None \<or> fileS = Some '''' then (Inr (), ev1 @ ev2 @ [PopupNoFile])
        else
          let f = the fileS;
              call = ExportCall (path_as_posix E f) von bis
          in case exportVonBis E server (path_as_posix E f) von bis of
               Inl e \<Rightarrow> (Inl e, ev1 @ ev2 @ [call])
             | Inr c \<Rightarrow> (Inr (), ev1 @ ev2 @ [call, PopupOk c (path_str E f)]))"

text \<open>The calls of \<^verbatim>\<open>exportVonBis\<close> among the events.\<close>

fun export_calls :: "event list \<Rightarrow> (string \<times> datetime option \<times> datetime option) list" where
  "export_calls [] = []"
| "export_calls (ExportCall f von bis # es) = (f, von, bis) # export_calls es"
| "export_calls (_ # es) = export_calls es"

text \<open>
  The three checks of \<^verbatim>\<open>createFile\<close> before the export: both dates parse (or are
  empty), and a file is given.
\<close>

definition checks_pass ::
  "(string \<Rightarrow> datetime option) \<Rightarrow> string option \<Rightarrow> string option \<Rightarrow> string option \<Rightarrow> bool" where
  "checks_pass sp fileS vonS bisS =
     (snd (fst (parseDate sp vonS)) \<and> snd (fst (parseDate sp bisS)) \<and>
      fileS \<noteq> None \<and> fileS \<noteq> Some '''')"

subsection \<open>Concrete environments\<close>

text \<open>An installation where neither formatting library could be imported.\<close>

definition no_formatters :: sql_formatters where
  "no_formatters =
     \<lparr>sqlfmt_format_string = (\<lambda>_. Inl (NameError ''sqlfmt'')),
      sqlparse_reindent = (\<lambda>_. Inl (NameError ''sqlparse'')),
      sqlparse_reindent_aligned = (\<lambda>_. Inl (NameError ''sqlparse''))\<rparr>"

text \<open>
  An environment for \<^verbatim>\<open>createFile\<close>: POSIX paths (which \<^verbatim>\<open>pathlib\<close> leaves as
  they are) and an export that writes three records.
\<close>

definition demo_env :: "unit gui_env" where
  "demo_env =
     \<lparr>lib_strptime = strptime_dmY,
      path_as_posix = (\<lambda>p. p),
      path_str = (\<lambda>p. p),
      exportVonBis = (\<lambda>_ _ _ _. Inr 3)\<rparr>"

section \<open>Record duplication\<close>

text \<open>
  Modelled from the spec: the Duplication component. The package \<^verbatim>\<open>PyAPplus64\<close> itself
  (the duplication walker, the database access, the SOAP wrappers) is not among the
  source files; only example scripts that call it and its documentation are. Every
  definition of this section follows sections 3 and 4.5 of the specification, step by
  step, and none is a translation of code. The serialisation of a snapshot to a file and
  the dynamic attributes (step 5) are left out.
\<close>

subsection \<open>Data model (specification, section 3)\<close>

text \<open>
  Modelled from the spec: the field-name to value mapping of a record (the record types
  of the package are missing). It is an association list; the first binding of a name
  counts.
\<close>

type_synonym fields = "(string \<times> string) list"

text \<open>
  Modelled from the spec: BusinessObjectDescriptor (its class is missing). It names a
  business-object type, its identifier field, its copyable fields and its
  dependent-object relations; a relation names itself, the descriptor of the child type
  and the foreign-key field that links a child to its parent. Descriptors are assumed
  acyclic, so they form a tree.
\<close>

datatype descriptor =
  Descriptor (bo_type: string) (id_field: string) (copyable: "string list") (relations: "relation list")
and relation =
  Relation (rel_name: string) (rel_child: descriptor) (rel_fk: string)

text \<open>
  Modelled from the spec: DuplicationPlan (its class is missing), the field overrides and
  the relation names left out of the copy. A relation the plan does not exclude is
  included.
\<close>

record plan =
  overrides :: fields
  excluded :: "string set"

text \<open>
  Modelled from the spec: a RecordSnapshot node (its class is missing), with the type and
  the identifier of the source record it mirrors, the new field values, and for each
  included relation, by name, the snapshots of the dependent records.
\<close>

datatype snapshot =
  Snapshot (snap_type: string) (snap_source: string) (snap_fields: fields)
    (snap_children: "(string \<times> snapshot list) list")

text \<open>
  Modelled from the spec: DuplicationError (its class is missing), with the type and the
  source identifier of the node that failed.
\<close>

datatype dup_error = DuplicationError string string

text \<open>
  Modelled from the spec: the source and the target system (the session, database and
  SOAP classes are missing). The source is a table of typed rows. On the target,
  \<open>next_number\<close> is the server's identifier allocation (its policy and its state \<open>'n\<close>
  are the server's; \<open>None\<close> is a fault) and \<open>accepts\<close> is the server's validation of an
  insert. The state that duplication changes is the server's allocation state and the
  typed rows created on the target, in the order of their creation.
\<close>

record 'n systems =
  source_rows :: "(string \<times> fields) list"
  next_number :: "string \<Rightarrow> 'n \<Rightarrow> (string \<times> 'n) option"
  accepts :: "string \<Rightarrow> fields \<Rightarrow> bool"

record 'n dup_state =
  alloc_state :: 'n
  created :: "(string \<times> fields) list"

subsection \<open>Reading the source (step 1)\<close>

text \<open>
  Modelled from the spec: the reads of the missing duplication walker. \<open>read_record\<close>
  finds the record of the descriptor's type with the given identifier, \<open>read_dependents\<close>
  the records of a relation's child type whose foreign key is the parent's identifier,
  and \<open>copyable_fields\<close> keeps the descriptor's copyable fields of a row.
\<close>

definition read_record :: "(string \<times> fields) list \<Rightarrow> descriptor \<Rightarrow> string \<Rightarrow> fields option" where
  "read_record rows d sid =
     map_option snd (find (\<lambda>(t, row). t = bo_type d \<and> map_of row (id_field d) = Some sid) rows)"

definition read_dependents :: "(string \<times> fields) list \<Rightarrow> relation \<Rightarrow> string \<Rightarrow> fields list" where
  "read_dependents rows r pid =
     map snd (filter (\<lambda>(t, row). t = bo_type (rel_child r) \<and> map_of row (rel_fk r) = Some pid) rows)"

definition copyable_fields :: "descriptor \<Rightarrow> fields \<Rightarrow> fields" where
  "copyable_fields d row = List.map_filter (\<lambda>f. map_option (Pair f) (map_of row f)) (copyable d)"

text \<open>
  Modelled from the spec: the source identifier of a node. A row without an identifier
  field has the empty identifier.
\<close>

definition source_id :: "descriptor \<Rightarrow> fields \<Rightarrow> string" where
  "source_id d row = (case map_of row (id_field d) of Some i \<Rightarrow> i | None \<Rightarrow> [])"

subsection \<open>Overrides and the new identifier (step 2)\<close>

text \<open>
  Modelled from the spec: step 2 of the missing duplication walker. \<open>apply_overrides\<close>
  sets each overridden field. \<open>new_fields\<close> gives the new identifier and the new field
  set of a node: the copyable fields of the source row with the overrides applied; when
  no override is given for the identifier field, one is requested with \<open>next_number\<close>
  for the node's type. \<open>None\<close> when that request fails.
\<close>

definition apply_overrides :: "fields \<Rightarrow> fields \<Rightarrow> fields" where
  "apply_overrides ovs fs = foldr (\<lambda>(k, v). AList.update k v) ovs fs"

definition new_fields ::
  "'n systems \<Rightarrow> descriptor \<Rightarrow> fields \<Rightarrow> fields \<Rightarrow> 'n dup_state \<Rightarrow> (string \<times> fields \<times> 'n dup_state) option" where
  "new_fields Sys d ovs row st =
     (let fs = apply_overrides ovs (copyable_fields d row) in
      case map_of ovs (id_field d) of
        Some v \<Rightarrow> Some (v, fs, st)
      | None \<Rightarrow>
          (case next_number Sys (bo_type d) (alloc_state st) of
             None \<Rightarrow> None
           | Some (n, a) \<Rightarrow> Some (n, AList.update (id_field d) n fs, st\<lparr>alloc_state := a\<rparr>)))"

subsection \<open>The depth-first copy (step 3)\<close>

text \<open>
  Modelled from the spec: step 3 of the missing duplication walker. \<open>snapshot_node\<close>
  duplicates one source row under a descriptor, \<open>snapshot_relations\<close> goes through the
  relations of its descriptor, skipping the excluded ones, and \<open>snapshot_rows\<close>
  duplicates the dependent rows of one relation, each with the new parent identifier as
  the override of its foreign-key field. A failure at a node ends the walk with the
  node's type and source identifier.
\<close>

fun snapshot_node ::
  "'n systems \<Rightarrow> string set \<Rightarrow> descriptor \<Rightarrow> fields \<Rightarrow> fields \<Rightarrow> 'n dup_state
     \<Rightarrow> (dup_error + snapshot) \<times> 'n dup_state"
and snapshot_relations ::
  "'n systems \<Rightarrow> string set \<Rightarrow> relation list \<Rightarrow> string \<Rightarrow> string \<Rightarrow> 'n dup_state
     \<Rightarrow> (dup_error + (string \<times> snapshot list) list) \<times> 'n dup_state"
and snapshot_rows ::
  "'n systems \<Rightarrow> string set \<Rightarrow> relation \<Rightarrow> string \<Rightarrow> fields list \<Rightarrow> 'n dup_state
     \<Rightarrow> (dup_error + snapshot list) \<times> 'n dup_state"
where
  "snapshot_node Sys X (Descriptor ty idf cp rels) ovs row st =
     (case new_fields Sys (Descriptor ty idf cp rels) ovs row st of
        None \<Rightarrow> (Inl (DuplicationError ty (source_id (Descriptor ty idf cp rels) row)), st)
      | Some (nid, fs, st1) \<Rightarrow>
          (case snapshot_relations Sys X rels (source_id (Descriptor ty idf cp rels) row) nid st1 of
             (Inl e, st2) \<Rightarrow> (Inl e, st2)
           | (Inr ch, st2) \<Rightarrow>
               (Inr (Snapshot ty (source_id (Descriptor ty idf cp rels) row) fs ch), st2)))"
| "snapshot_relations Sys X [] sid nid st = (Inr [], st)"
| "snapshot_relations Sys X (Relation rn cd fk # rs) sid nid st =
     (if rn \<in> X then snapshot_relations Sys X rs sid nid st
      else
        (case snapshot_rows Sys X (Relation rn cd fk) nid
                (read_dependents (source_rows Sys) (Relation rn cd fk) sid) st of
           (Inl e, st1) \<Rightarrow> (Inl e, st1)
         | (Inr cs, st1) \<Rightarrow>
             (case snapshot_relations Sys X rs sid nid st1 of
                (Inl e, st2) \<Rightarrow> (Inl e, st2)
              | (Inr ch, st2) \<Rightarrow> (Inr ((rn, cs) # ch), st2))))"
| "snapshot_rows Sys X (Relation rn cd fk) nid [] st = (Inr [], st)"
| "snapshot_rows Sys X (Relation rn cd fk) nid (row # rows) st =
     (case snapshot_node Sys X cd [(fk, nid)] row st of
        (Inl e, st1) \<Rightarrow> (Inl e, st1)
      | (Inr c, st1) \<Rightarrow>
          (case snapshot_rows Sys X (Relation rn cd fk) nid rows st1 of
             (Inl e, st2) \<Rightarrow> (Inl e, st2)
           | (Inr cs, st2) \<Rightarrow> (Inr (c # cs), st2)))"

subsection \<open>Creating the records on the target (step 4)\<close>

text \<open>
  Modelled from the spec: step 4 of the missing duplication walker, on the target system.
  \<open>flatten\<close> lists the nodes of a snapshot depth first (type, source identifier, new
  fields): the parent, then its relations in order, each child with its own subtree.
  \<open>insert_nodes\<close> creates them in this order and stops at the first record the target
  rejects; what was created before stays.
\<close>

fun flatten :: "snapshot \<Rightarrow> (string \<times> string \<times> fields) list" where
  "flatten (Snapshot ty sid fs ch) =
     (ty, sid, fs) # concat (map (\<lambda>(rn, cs). concat (map flatten cs)) ch)"

fun insert_nodes ::
  "'n systems \<Rightarrow> (string \<times> string \<times> fields) list \<Rightarrow> 'n dup_state \<Rightarrow> dup_error option \<times> 'n dup_state" where
  "insert_nodes Sys [] st = (None, st)"
| "insert_nodes Sys ((ty, sid, fs) # ns) st =
     (if accepts Sys ty fs
      then insert_nodes Sys ns (st\<lparr>created := created st @ [(ty, fs)]\<rparr>)
      else (Some (DuplicationError ty sid), st))"

definition materialize :: "'n systems \<Rightarrow> snapshot \<Rightarrow> 'n dup_state \<Rightarrow> dup_error option \<times> 'n dup_state" where
  "materialize Sys snap st = insert_nodes Sys (flatten snap) st"

subsection \<open>Duplication\<close>

text \<open>
  Modelled from the spec: the duplication operation of the missing package, given a source
  record identifier, a descriptor and a plan: read the record, build the snapshot, create
  its records on the target. The result is the snapshot or the error, and the state
  reached.
\<close>

definition duplicate ::
  "'n systems \<Rightarrow> plan \<Rightarrow> descriptor \<Rightarrow> string \<Rightarrow> 'n dup_state \<Rightarrow> (dup_error + snapshot) \<times> 'n dup_state" where
  "duplicate Sys p d sid st =
     (case read_record (source_rows Sys) d sid of
        None \<Rightarrow> (Inl (DuplicationError (bo_type d) sid), st)
      | Some row \<Rightarrow>
          (case snapshot_node Sys (excluded p) d (overrides p) row st of
             (Inl e, st1) \<Rightarrow> (Inl e, st1)
           | (Inr snap, st1) \<Rightarrow>
               (case materialize Sys snap st1 of
                  (Some e, st2) \<Rightarrow> (Inl e, st2)
                | (None, st2) \<Rightarrow> (Inr snap, st2))))"

text \<open>The typed row that the insert of a snapshot node creates.\<close>

definition target_of :: "string \<times> string \<times> fields \<Rightarrow> string \<times> fields" where
  "target_of n = (case n of (ty, sid, fs) \<Rightarrow> (ty, fs))"

subsection \<open>What the target must hold after a copy\<close>

text \<open>
  The copy of a source record, stated on the source rows and on the list of records
  created on the target alone; none of the definitions of the walk above is used.

  \<open>source_dependents rows ct fk pid\<close> are the source rows of type \<open>ct\<close> whose field
  \<open>fk\<close> is \<open>pid\<close>, in the order of the table, and \<open>row_ident idf row\<close> is the
  identifier of a row (empty when the row has none).

  \<open>tree_size rows X d sid\<close> counts the source records of the tree under the record of
  descriptor \<open>d\<close> with identifier \<open>sid\<close>: the record itself and, for each relation
  of \<open>d\<close> that is not in \<open>X\<close>, the trees of its dependents.
\<close>

definition source_dependents :: "(string \<times> fields) list \<Rightarrow> string \<Rightarrow> string \<Rightarrow> string \<Rightarrow> fields list" where
  "source_dependents rows ct fk pid = [row. (t, row) \<leftarrow> rows, t = ct, map_of row fk = Some pid]"

definition row_ident :: "string \<Rightarrow> fields \<Rightarrow> string" where
  "row_ident idf row = (case map_of row idf of None \<Rightarrow> [] | Some i \<Rightarrow> i)"

fun tree_size :: "(string \<times> fields) list \<Rightarrow> string set \<Rightarrow> descriptor \<Rightarrow> string \<Rightarrow> nat"
and rels_size :: "(string \<times> fields) list \<Rightarrow> string set \<Rightarrow> relation list \<Rightarrow> string \<Rightarrow> nat"
and deps_size :: "(string \<times> fields) list \<Rightarrow> string set \<Rightarrow> relation \<Rightarrow> fields list \<Rightarrow> nat"
where
  "tree_size rows X (Descriptor ty idf cp rels) sid = Suc (rels_size rows X rels sid)"
| "rels_size rows X [] sid = 0"
| "rels_size rows X (Relation rn cd fk # rs) sid =
     (if rn \<in> X then 0
      else deps_size rows X (Relation rn cd fk) (source_dependents rows (bo_type cd) fk sid)) +
     rels_size rows X rs sid"
| "deps_size rows X (Relation rn cd fk) [] = 0"
| "deps_size rows X (Relation rn cd fk) (dep # deps) =
     tree_size rows X cd (row_ident (id_field cd) dep) + deps_size rows X (Relation rn cd fk) deps"

text \<open>
  \<open>copy_ok rows X d sid recs\<close>: the target records \<open>recs\<close> are a depth-first copy of
  the source record of descriptor \<open>d\<close> with identifier \<open>sid\<close>.
  \<^item> The first record is the copy of the record itself: it has the type of \<open>d\<close> and an
    identifier, the new identifier of the parent of what follows.
  \<^item> Then, for each relation of \<open>d\<close> that is not in \<open>X\<close>, in the order of the
    descriptor, and for each source dependent of that relation, in the order of the
    source, comes one block of records: as many as the dependent's tree has source
    records. The first record of the block is the copy of the dependent (of the child's
    type), its foreign-key field is the new identifier of the parent, and the block as a
    whole is a copy of this kind of the dependent.
  \<^item> Nothing else follows.
  So each source dependent has exactly one target record, its own dependents' records
  stand between it and the record of its next sibling, and a parent stands before all
  records of its tree.
\<close>

function (sequential) copy_ok ::
  "(string \<times> fields) list \<Rightarrow> string set \<Rightarrow> descriptor \<Rightarrow> string \<Rightarrow> (string \<times> fields) list \<Rightarrow> bool"
and rels_copy_ok ::
  "(string \<times> fields) list \<Rightarrow> string set \<Rightarrow> relation list \<Rightarrow> string \<Rightarrow> string
     \<Rightarrow> (string \<times> fields) list \<Rightarrow> bool"
and deps_copy_ok ::
  "(string \<times> fields) list \<Rightarrow> string set \<Rightarrow> relation \<Rightarrow> string \<Rightarrow> fields list
     \<Rightarrow> (string \<times> fields) list \<Rightarrow> bool"
where
  "copy_ok rows X (Descriptor ty idf cp rels) sid recs =
     (case recs of
        [] \<Rightarrow> False
      | (t, fs) # rest \<Rightarrow>
          t = ty \<and>
          (case map_of fs idf of
             None \<Rightarrow> False
           | Some nid \<Rightarrow> rels_copy_ok rows X rels sid nid rest))"
| "rels_copy_ok rows X [] sid nid recs = (recs = [])"
| "rels_copy_ok rows X (Relation rn cd fk # rs) sid nid recs =
     (if rn \<in> X then rels_copy_ok rows X rs sid nid recs
      else
        deps_copy_ok rows X (Relation rn cd fk) nid (source_dependents rows (bo_type cd) fk sid)
          (take (deps_size rows X (Relation rn cd fk) (source_dependents rows (bo_type cd) fk sid)) recs) \<and>
        rels_copy_ok rows X rs sid nid
          (drop (deps_size rows X (Relation rn cd fk) (source_dependents rows (bo_type cd) fk sid)) recs))"
| "deps_copy_ok rows X (Relation rn cd fk) nid [] recs = (recs = [])"
| "deps_copy_ok rows X (Relation rn cd fk) nid (dep # deps) recs =
     ((case recs of [] \<Rightarrow> False | (t, fs) # rest \<Rightarrow> map_of fs fk = Some nid) \<and>
      copy_ok rows X cd (row_ident (id_field cd) dep)
        (take (tree_size rows X cd (row_ident (id_field cd) dep)) recs) \<and>
      deps_copy_ok rows X (Relation rn cd fk) nid deps
        (drop (tree_size rows X cd (row_ident (id_field cd) dep)) recs))"
  by pat_completeness auto

termination
  by (relation "(\<lambda>x. case x of
                       Inl (rows, X, d, sid, recs) \<Rightarrow> size d
                     | Inr (Inl (rows, X, rels, sid, nid, recs)) \<Rightarrow> size_list size rels
                     | Inr (Inr (rows, X, r, nid, deps, recs)) \<Rightarrow> size r) <*mlex*>
                (\<lambda>x. case x of
                       Inr (Inr (rows, X, r, nid, deps, recs)) \<Rightarrow> length deps
                     | _ \<Rightarrow> 0) <*mlex*> {}")
     (auto simp: wf_mlex mlex_less mlex_leq)

subsection \<open>The example of the specification\<close>

text \<open>
  The scenario of section 8: the article \<open>A100\<close> (\<open>Widget\<close>) has a bill of materials
  of two lines; another article has one line. A line also carries a field that is not
  copyable. The server hands out the identifiers held in its state, in order, and accepts
  every record.
\<close>

definition bom_line :: descriptor where
  "bom_line = Descriptor ''BomLine'' ''line'' [''line'', ''parent'', ''material''] []"

definition article :: descriptor where
  "article = Descriptor ''Article'' ''id'' [''id'', ''desc''] [Relation ''bom'' bom_line ''parent'']"

definition demo_systems :: "string list systems" where
  "demo_systems =
     \<lparr>source_rows =
        [(''Article'', [(''id'', ''A100''), (''desc'', ''Widget'')]),
         (''BomLine'', [(''line'', ''L1''), (''parent'', ''A100''), (''material'', ''M1''), (''upduser'', ''tt'')]),
         (''BomLine'', [(''line'', ''L7''), (''parent'', ''A999''), (''material'', ''M1''), (''upduser'', ''tt'')]),
         (''BomLine'', [(''line'', ''L2''), (''parent'', ''A100''), (''material'', ''M2''), (''upduser'', ''tt'')]),
         (''Article'', [(''id'', ''A999''), (''desc'', ''Gadget'')])],
      next_number = (\<lambda>ty q. case q of [] \<Rightarrow> None | n # q' \<Rightarrow> Some (n, q')),
      accepts = (\<lambda>ty fs. True)\<rparr>"

definition demo_state :: "string list dup_state" where
  "demo_state = \<lparr>alloc_state = [''N1'', ''N2'', ''N3''], created = []\<rparr>"

definition plan_A200 :: plan where
  "plan_A200 = \<lparr>overrides = [(''id'', ''A200'')], excluded = {}\<rparr>"

definition plan_material :: plan where
  "plan_material = \<lparr>overrides = [(''material'', ''M9'')], excluded = {}\<rparr>"

text \<open>
  A deeper source: the article \<open>A100\<close> has a bill of materials of two lines and a work
  plan of one operation; the first line has two sub-lines and the second has one. The
  rows of the table are not in the order of the tree.
\<close>

definition sub_line :: descriptor where
  "sub_line = Descriptor ''SubLine'' ''sub'' [''sub'', ''line'', ''note''] []"

definition bom_line_deep :: descriptor where
  "bom_line_deep =
     Descriptor ''BomLine'' ''line'' [''line'', ''parent'', ''material'']
       [Relation ''subs'' sub_line ''line'']"

definition operation :: descriptor where
  "operation = Descriptor ''Operation'' ''op'' [''op'', ''article'', ''step''] []"

definition article_deep :: descriptor where
  "article_deep =
     Descriptor ''Article'' ''id'' [''id'', ''desc'']
       [Relation ''bom'' bom_line_deep ''parent'', Relation ''plan'' operation ''article'']"

definition deep_systems :: "string list systems" where
  "deep_systems =
     \<lparr>source_rows =
        [(''Operation'', [(''op'', ''O1''), (''article'', ''A100''), (''step'', ''saw'')]),
         (''SubLine'', [(''sub'', ''S1''), (''line'', ''L1''), (''note'', ''x'')]),
         (''SubLine'', [(''sub'', ''S2''), (''line'', ''L2''), (''note'', ''y'')]),
         (''BomLine'', [(''line'', ''L1''), (''parent'', ''A100''), (''material'', ''M1'')]),
         (''Article'', [(''id'', ''A100''), (''desc'', ''Widget'')]),
         (''SubLine'', [(''sub'', ''S3''), (''line'', ''L1''), (''note'', ''z'')]),
         (''BomLine'', [(''line'', ''L9''), (''parent'', ''A999''), (''material'', ''M1'')]),
         (''BomLine'', [(''line'', ''L2''), (''parent'', ''A100''), (''material'', ''M2'')])],
      next_number = (\<lambda>ty q. case q of [] \<Rightarrow> None | n # q' \<Rightarrow> Some (n, q')),
      accepts = (\<lambda>ty fs. True)\<rparr>"

definition deep_state :: "string list dup_state" where
  "deep_state =
     \<lparr>alloc_state = [''N1'', ''N2'', ''N3'', ''N4'', ''N5'', ''N6'', ''N7''],
      created = [(''Article'', [(''id'', ''A001''), (''desc'', ''Old'')])]\<rparr>"

section \<open>Properties of the example scripts\<close>

lemma strptime_dmY_first_feb:
  "strptime_dmY ''01.02.2023'' = Some \<lparr>dt_year = 2023, dt_month = 2, dt_day = 1\<rparr>"
  by code_simp

lemma strptime_dmY_first_mar:
  "strptime_dmY ''01.03.2023'' = Some \<lparr>dt_year = 2023, dt_month = 3, dt_day = 1\<rparr>"
  by code_simp

lemma strptime_dmY_no_such_day: "strptime_dmY ''31.02.2023'' = None"
  by code_simp

text \<open>
  Claim C8. For a format name other than \<^verbatim>\<open>sqlfmt\<close>, \<^verbatim>\<open>sqlparse-2\<close> and
  \<^verbatim>\<open>sqlparse\<close>, \<^verbatim>\<open>prettyPrintSQL\<close> returns its SQL argument unchanged, whatever
  the formatting libraries do.
\<close>

theorem prettyPrintSQL_other_format:
  "fmt \<noteq> ''sqlfmt'' \<Longrightarrow> fmt \<noteq> ''sqlparse-2'' \<Longrightarrow> fmt \<noteq> ''sqlparse'' \<Longrightarrow>
   prettyPrintSQL F fmt sql = Inr sql"
  by (simp add: prettyPrintSQL_def prettyPrintSQL_body_def)

theorem prettyPrintSQL_other_format_witness:
  "''-'' \<noteq> ''sqlfmt'' \<and> ''-'' \<noteq> ''sqlparse-2'' \<and> ''-'' \<noteq> ''sqlparse'' \<and>
   prettyPrintSQL no_formatters ''-'' ''select 1'' = Inr ''select 1''"
  using prettyPrintSQL_other_format [of "''-''" no_formatters "''select 1''"] by simp

text \<open>
  Claim C9. \<^verbatim>\<open>parseDate\<close> returns a pair whose first component is \<open>None\<close> whenever
  the second is \<open>False\<close>; it returns \<open>(None, True)\<close> for \<open>None\<close> and for the empty
  string, \<open>(d, True)\<close> when \<open>strptime\<close> parses a non-empty input to \<open>d\<close>, and
  \<open>(None, False)\<close> when \<open>strptime\<close> raises on a non-empty input.
\<close>

theorem parseDate_cases:
  "(snd (fst (parseDate sp x)) = False \<longrightarrow> fst (fst (parseDate sp x)) = None) \<and>
   (x = None \<or> x = Some '''' \<longrightarrow> fst (parseDate sp x) = (None, True)) \<and>
   (\<forall>s d. x = Some s \<and> s \<noteq> '''' \<and> sp s = Some d \<longrightarrow> fst (parseDate sp x) = (Some d, True)) \<and>
   (\<forall>s. x = Some s \<and> s \<noteq> '''' \<and> sp s = None \<longrightarrow> fst (parseDate sp x) = (None, False))"
  by (auto simp: parseDate_def split: option.splits)

theorem parseDate_cases_witness:
  "fst (parseDate strptime_dmY None) = (None, True) \<and>
   fst (parseDate strptime_dmY (Some '''')) = (None, True) \<and>
   fst (parseDate strptime_dmY (Some ''01.02.2023'')) =
     (Some \<lparr>dt_year = 2023, dt_month = 2, dt_day = 1\<rparr>, True) \<and>
   fst (parseDate strptime_dmY (Some ''31.02.2023'')) = (None, False) \<and>
   snd (fst (parseDate strptime_dmY (Some ''31.02.2023''))) = False \<and>
   fst (fst (parseDate strptime_dmY (Some ''31.02.2023''))) = None"
  using parseDate_cases [of strptime_dmY None]
        parseDate_cases [of strptime_dmY "Some ''''"]
        parseDate_cases [of strptime_dmY "Some ''01.02.2023''"]
        parseDate_cases [of strptime_dmY "Some ''31.02.2023''"]
  by (simp add: strptime_dmY_first_feb strptime_dmY_no_such_day)

text \<open>
  Claim C10. \<^verbatim>\<open>createFile\<close> calls \<^verbatim>\<open>mengenabweichung.exportVonBis\<close> exactly when
  both date strings parse (or are empty) and the file string is neither \<open>None\<close> nor
  empty, and then once, with the POSIX form of the path and the two parsed dates. When
  one of the checks fails there is no call and the function returns.
\<close>

theorem createFile_export_guard:
  "export_calls (snd (createFile E server fileS vonS bisS)) =
     (if checks_pass (lib_strptime E) fileS vonS bisS
      then [(path_as_posix E (the fileS), fst (fst (parseDate (lib_strptime E) vonS)),
             fst (fst (parseDate (lib_strptime E) bisS)))]
      else []) \<and>
   (\<not> checks_pass (lib_strptime E) fileS vonS bisS \<longrightarrow>
      fst (createFile E server fileS vonS bisS) = Inr ())"
  by (auto simp: createFile_def checks_pass_def parseDate_def Let_def
           split: option.splits sum.splits prod.splits)

lemma demo_env_simps:
  "lib_strptime demo_env = strptime_dmY"
  "path_as_posix demo_env p = p"
  by (simp_all add: demo_env_def)

lemma checks_pass_demo_ok:
  "checks_pass strptime_dmY (Some ''/tmp/out.xlsx'') (Some ''01.02.2023'') (Some ''01.03.2023'')"
  by (simp add: checks_pass_def parseDate_def strptime_dmY_first_feb strptime_dmY_first_mar)

lemma checks_pass_demo_bad_date:
  "\<not> checks_pass strptime_dmY (Some ''/tmp/out.xlsx'') (Some ''31.02.2023'') (Some ''01.03.2023'')"
  by (simp add: checks_pass_def parseDate_def strptime_dmY_no_such_day)

lemma checks_pass_demo_no_file:
  "\<not> checks_pass strptime_dmY (Some '''') (Some ''01.02.2023'') (Some ''01.03.2023'')"
  by (simp add: checks_pass_def)

theorem createFile_export_guard_witness:
  "export_calls (snd (createFile demo_env () (Some ''/tmp/out.xlsx'') (Some ''01.02.2023'') (Some ''01.03.2023''))) =
     [(''/tmp/out.xlsx'', Some \<lparr>dt_year = 2023, dt_month = 2, dt_day = 1\<rparr>,
       Some \<lparr>dt_year = 2023, dt_month = 3, dt_day = 1\<rparr>)] \<and>
   export_calls (snd (createFile demo_env () (Some ''/tmp/out.xlsx'') (Some ''31.02.2023'') (Some ''01.03.2023''))) = [] \<and>
   fst (createFile demo_env () (Some ''/tmp/out.xlsx'') (Some ''31.02.2023'') (Some ''01.03.2023'')) = Inr () \<and>
   export_calls (snd (createFile demo_env () (Some '''') (Some ''01.02.2023'') (Some ''01.03.2023''))) = [] \<and>
   fst (createFile demo_env () (Some '''') (Some ''01.02.2023'') (Some ''01.03.2023'')) = Inr ()"
  using createFile_export_guard [of demo_env "()" "Some ''/tmp/out.xlsx''" "Some ''01.02.2023''" "Some ''01.03.2023''"]
        createFile_export_guard [of demo_env "()" "Some ''/tmp/out.xlsx''" "Some ''31.02.2023''" "Some ''01.03.2023''"]
        createFile_export_guard [of demo_env "()" "Some ''''" "Some ''01.02.2023''" "Some ''01.03.2023''"]
        checks_pass_demo_ok checks_pass_demo_bad_date checks_pass_demo_no_file
  by (simp add: demo_env_simps parseDate_def strptime_dmY_first_feb strptime_dmY_first_mar)

section \<open>Properties of record duplication\<close>

subsection \<open>Field sets\<close>

lemma map_of_copyable_fields:
  "map_of (copyable_fields d row) f = (if f \<in> set (copyable d) then map_of row f else None)"
proof -
  have "map_of (List.map_filter (\<lambda>f. map_option (Pair f) (map_of row f)) xs) f =
        (if f \<in> set xs then map_of row f else None)" for xs
    by (induction xs) (auto split: option.splits)
  then show ?thesis by (simp add: copyable_fields_def)
qed

lemma map_of_apply_overrides:
  "map_of (apply_overrides ovs fs) = map_of fs ++ map_of ovs"
  by (induction ovs) (auto simp: apply_overrides_def update_conv' map_add_def fun_eq_iff)

lemma new_fields_SomeD:
  assumes "new_fields Sys d ovs row st = Some (nid, fs, st1)"
  shows "map_of fs (id_field d) = Some nid"
    and "\<And>f v. map_of ovs f = Some v \<Longrightarrow> map_of fs f = Some v"
    and "\<And>f. map_of ovs f = None \<Longrightarrow> f \<noteq> id_field d \<Longrightarrow>
           map_of fs f = (if f \<in> set (copyable d) then map_of row f else None)"
    and "map_of ovs (id_field d) = None \<Longrightarrow>
           next_number Sys (bo_type d) (alloc_state st) = Some (nid, alloc_state st1)"
    and "created st1 = created st"
  using assms
  by (auto simp: new_fields_def Let_def map_of_apply_overrides map_of_copyable_fields
        update_conv' map_add_def split: option.splits if_splits)

subsection \<open>The inserts\<close>

lemma insert_nodes_None:
  "insert_nodes Sys ns st = (None, st') \<Longrightarrow>
   created st' = created st @ map target_of ns \<and> alloc_state st' = alloc_state st"
  by (induction Sys ns st rule: insert_nodes.induct)
     (auto simp: target_of_def split: if_splits)

lemma insert_nodes_accepted:
  "\<forall>ty fs. accepts Sys ty fs \<Longrightarrow> \<exists>st'. insert_nodes Sys ns st = (None, st')"
  by (induction Sys ns st rule: insert_nodes.induct) auto

subsection \<open>The walk\<close>

text \<open>The reads of the walk, stated on the source table.\<close>

lemma read_dependents_eq:
  "read_dependents rows (Relation rn cd fk) sid = source_dependents rows (bo_type cd) fk sid"
  by (induction rows) (auto simp: read_dependents_def source_dependents_def split: if_splits)

lemma source_id_eq: "source_id d row = row_ident (id_field d) row"
  by (simp add: source_id_def row_ident_def split: option.splits)

lemma read_record_SomeD:
  assumes "read_record rows d sid = Some row"
  shows "(bo_type d, row) \<in> set rows" and "map_of row (id_field d) = Some sid"
  using assms by (auto simp: read_record_def find_Some_iff in_set_conv_nth)

lemma flatten_head: "\<exists>rest. flatten s = (snap_type s, snap_source s, snap_fields s) # rest"
  by (cases s) simp

text \<open>
  The records of a successful walk, listed depth first, are a copy of the source tree:
  for a node, for the relations of a node, and for the dependents of one relation.
\<close>

lemma snapshot_copy_ok:
  "snapshot_node Sys X d ovs row st = (Inr snap, st') \<Longrightarrow>
     copy_ok (source_rows Sys) X d (source_id d row) (map target_of (flatten snap)) \<and>
     length (flatten snap) = tree_size (source_rows Sys) X d (source_id d row) \<and>
     (\<forall>f v. map_of ovs f = Some v \<longrightarrow> map_of (snap_fields snap) f = Some v)"
  "snapshot_relations Sys X rels sid nid st = (Inr ch, st') \<Longrightarrow>
     rels_copy_ok (source_rows Sys) X rels sid nid
       (map target_of (concat (map (\<lambda>(rn, cs). concat (map flatten cs)) ch))) \<and>
     length (concat (map (\<lambda>(rn, cs). concat (map flatten cs)) ch)) =
       rels_size (source_rows Sys) X rels sid"
  "snapshot_rows Sys X r nid rows st = (Inr cs, st') \<Longrightarrow>
     deps_copy_ok (source_rows Sys) X r nid rows (map target_of (concat (map flatten cs))) \<and>
     length (concat (map flatten cs)) = deps_size (source_rows Sys) X r rows"
proof (induction Sys X d ovs row st and Sys X rels sid nid st and Sys X r nid rows st
       arbitrary: snap st' and ch st' and cs st'
       rule: snapshot_node_snapshot_relations_snapshot_rows.induct)
  case (1 Sys X ty idf cp rels ovs row st)
  let ?d = "Descriptor ty idf cp rels"
  from "1.prems" obtain nid fs st1 where nf: "new_fields Sys ?d ovs row st = Some (nid, fs, st1)"
    by (auto split: option.splits)
  with "1.prems" obtain ch where
    rel: "snapshot_relations Sys X rels (source_id ?d row) nid st1 = (Inr ch, st')"
    and snap: "snap = Snapshot ty (source_id ?d row) fs ch"
    by (auto split: prod.splits sum.splits)
  let ?below = "concat (map (\<lambda>(rn, cs). concat (map flatten cs)) ch)"
  from "1.IH" [OF nf refl refl rel]
  have below: "rels_copy_ok (source_rows Sys) X rels (source_id ?d row) nid (map target_of ?below)"
    and len: "length ?below = rels_size (source_rows Sys) X rels (source_id ?d row)"
    by simp_all
  from new_fields_SomeD(1) [OF nf] have nid: "map_of fs idf = Some nid" by simp
  from new_fields_SomeD(2) [OF nf]
  have ov: "\<forall>f v. map_of ovs f = Some v \<longrightarrow> map_of fs f = Some v" by blast
  have "map target_of (flatten snap) = (ty, fs) # map target_of ?below"
    by (simp add: snap target_of_def)
  with below nid have "copy_ok (source_rows Sys) X ?d (source_id ?d row) (map target_of (flatten snap))"
    by simp
  moreover have "length (flatten snap) = tree_size (source_rows Sys) X ?d (source_id ?d row)"
    using len by (simp add: snap)
  ultimately show ?case using ov snap by simp
next
  case (2 Sys X sid nid st)
  then show ?case by simp
next
  case (3 Sys X rn cd fk rs sid nid st)
  show ?case
  proof (cases "rn \<in> X")
    case True
    with "3.prems" "3.IH"(1) show ?thesis by simp
  next
    case False
    let ?r = "Relation rn cd fk"
    let ?deps = "source_dependents (source_rows Sys) (bo_type cd) fk sid"
    have deps: "read_dependents (source_rows Sys) ?r sid = ?deps" by (rule read_dependents_eq)
    from False "3.prems" obtain cs st1 ch' where
      rows: "snapshot_rows Sys X ?r nid (read_dependents (source_rows Sys) ?r sid) st = (Inr cs, st1)"
      and rest: "snapshot_relations Sys X rs sid nid st1 = (Inr ch', st')"
      and ch: "ch = (rn, cs) # ch'"
      by (auto split: prod.splits sum.splits)
    let ?A = "concat (map flatten cs)"
    let ?B = "concat (map (\<lambda>(rn, cs). concat (map flatten cs)) ch')"
    from "3.IH"(2) [OF False rows]
    have a: "deps_copy_ok (source_rows Sys) X ?r nid ?deps (map target_of ?A)"
      and la: "length ?A = deps_size (source_rows Sys) X ?r ?deps"
      by (simp_all add: deps)
    from "3.IH"(3) [OF False rows [symmetric] refl rest]
    have b: "rels_copy_ok (source_rows Sys) X rs sid nid (map target_of ?B)"
      and lb: "length ?B = rels_size (source_rows Sys) X rs sid"
      by simp_all
    have split: "map target_of (concat (map (\<lambda>(rn, cs). concat (map flatten cs)) ch)) =
                 map target_of ?A @ map target_of ?B"
      by (simp add: ch)
    have "rels_copy_ok (source_rows Sys) X (?r # rs) sid nid (map target_of ?A @ map target_of ?B)"
      using False a b la by simp
    moreover have "length (concat (map (\<lambda>(rn, cs). concat (map flatten cs)) ch)) =
                   rels_size (source_rows Sys) X (?r # rs) sid"
      using False la lb by (simp add: ch)
    ultimately show ?thesis by (simp only: split)
  qed
next
  case (4 Sys X rn cd fk nid st)
  then show ?case by simp
next
  case (5 Sys X rn cd fk nid row rows st)
  let ?r = "Relation rn cd fk"
  from "5.prems" obtain c st1 cs' where
    node: "snapshot_node Sys X cd [(fk, nid)] row st = (Inr c, st1)"
    and rest: "snapshot_rows Sys X ?r nid rows st1 = (Inr cs', st')"
    and cs: "cs = c # cs'"
    by (auto split: prod.splits sum.splits)
  let ?A = "flatten c"
  let ?B = "concat (map flatten cs')"
  let ?sid = "row_ident (id_field cd) row"
  from "5.IH"(1) [OF node]
  have a: "copy_ok (source_rows Sys) X cd ?sid (map target_of ?A)"
    and la: "length ?A = tree_size (source_rows Sys) X cd ?sid"
    and fk: "map_of (snap_fields c) fk = Some nid"
    by (simp_all add: source_id_eq)
  from "5.IH"(2) [OF node [symmetric] refl rest]
  have b: "deps_copy_ok (source_rows Sys) X ?r nid rows (map target_of ?B)"
    and lb: "length ?B = deps_size (source_rows Sys) X ?r rows"
    by simp_all
  from flatten_head [of c] obtain tl where hd: "?A = (snap_type c, snap_source c, snap_fields c) # tl"
    by blast
  have first: "case map target_of ?A @ map target_of ?B of [] \<Rightarrow> False
               | (t, fs) # rest \<Rightarrow> map_of fs fk = Some nid"
    using fk by (simp add: hd target_of_def)
  have "deps_copy_ok (source_rows Sys) X ?r nid (row # rows) (map target_of ?A @ map target_of ?B)"
    using first a b la by simp
  moreover have "length (concat (map flatten cs)) = deps_size (source_rows Sys) X ?r (row # rows)"
    using la lb by (simp add: cs)
  ultimately show ?case by (simp add: cs)
qed

text \<open>The walk creates nothing on the target, whether it succeeds or fails.\<close>

lemma snapshot_creates_nothing:
  "snapshot_node Sys X d ovs row st = (res, st') \<Longrightarrow> created st' = created st"
  "snapshot_relations Sys X rels sid nid st = (resq, st') \<Longrightarrow> created st' = created st"
  "snapshot_rows Sys X r nid rows st = (resr, st') \<Longrightarrow> created st' = created st"
proof (induction Sys X d ovs row st and Sys X rels sid nid st and Sys X r nid rows st
       arbitrary: res st' and resq st' and resr st'
       rule: snapshot_node_snapshot_relations_snapshot_rows.induct)
  case (1 Sys X ty idf cp rels ovs row st)
  let ?d = "Descriptor ty idf cp rels"
  show ?case
  proof (cases "new_fields Sys ?d ovs row st")
    case None
    with "1.prems" show ?thesis by simp
  next
    case (Some t)
    then obtain nid fs st1 where nf: "new_fields Sys ?d ovs row st = Some (nid, fs, st1)"
      by (cases t) auto
    obtain q st2 where rel: "snapshot_relations Sys X rels (source_id ?d row) nid st1 = (q, st2)"
      by (cases "snapshot_relations Sys X rels (source_id ?d row) nid st1") auto
    from "1.IH" [OF nf refl refl rel] have "created st2 = created st1" .
    moreover from "1.prems" nf rel have "st' = st2" by (auto split: sum.splits)
    ultimately show ?thesis using new_fields_SomeD(5) [OF nf] by simp
  qed
next
  case (2 Sys X sid nid st)
  then show ?case by simp
next
  case (3 Sys X rn cd fk rs sid nid st)
  show ?case
  proof (cases "rn \<in> X")
    case True
    with "3.prems" "3.IH"(1) show ?thesis by simp
  next
    case False
    let ?r = "Relation rn cd fk"
    obtain q st1 where
      rows: "snapshot_rows Sys X ?r nid (read_dependents (source_rows Sys) ?r sid) st = (q, st1)"
      by (cases "snapshot_rows Sys X ?r nid (read_dependents (source_rows Sys) ?r sid) st") auto
    from "3.IH"(2) [OF False rows] have a: "created st1 = created st" .
    show ?thesis
    proof (cases q)
      case (Inl e)
      with "3.prems" False rows have "st' = st1" by simp
      with a show ?thesis by simp
    next
      case (Inr cs)
      obtain q2 st2 where rest: "snapshot_relations Sys X rs sid nid st1 = (q2, st2)"
        by (cases "snapshot_relations Sys X rs sid nid st1") auto
      from "3.IH"(3) [OF False rows [symmetric] Inr rest] have b: "created st2 = created st1" .
      from "3.prems" False rows Inr rest have "st' = st2" by (auto split: sum.splits)
      with a b show ?thesis by simp
    qed
  qed
next
  case (4 Sys X rn cd fk nid st)
  then show ?case by simp
next
  case (5 Sys X rn cd fk nid row rows st)
  obtain q st1 where node: "snapshot_node Sys X cd [(fk, nid)] row st = (q, st1)"
    by (cases "snapshot_node Sys X cd [(fk, nid)] row st") auto
  from "5.IH"(1) [OF node] have a: "created st1 = created st" .
  show ?case
  proof (cases q)
    case (Inl e)
    with "5.prems" node have "st' = st1" by simp
    with a show ?thesis by simp
  next
    case (Inr c)
    obtain q2 st2 where rest: "snapshot_rows Sys X (Relation rn cd fk) nid rows st1 = (q2, st2)"
      by (cases "snapshot_rows Sys X (Relation rn cd fk) nid rows st1") auto
    from "5.IH"(2) [OF node [symmetric] Inr rest] have b: "created st2 = created st1" .
    from "5.prems" node Inr rest have "st' = st2" by (auto split: sum.splits)
    with a b show ?thesis by simp
  qed
qed

text \<open>With a server that always allocates a number, the walk succeeds.\<close>

lemma snapshot_succeeds:
  "\<forall>ty a. next_number Sys ty a \<noteq> None \<Longrightarrow>
     \<exists>snap st'. snapshot_node Sys X d ovs row st = (Inr snap, st')"
  "\<forall>ty a. next_number Sys ty a \<noteq> None \<Longrightarrow>
     \<exists>ch st'. snapshot_relations Sys X rels sid nid st = (Inr ch, st')"
  "\<forall>ty a. next_number Sys ty a \<noteq> None \<Longrightarrow>
     \<exists>cs st'. snapshot_rows Sys X r nid rows st = (Inr cs, st')"
proof (induction Sys X d ovs row st and Sys X rels sid nid st and Sys X r nid rows st
       rule: snapshot_node_snapshot_relations_snapshot_rows.induct)
  case (1 Sys X ty idf cp rels ovs row st)
  let ?d = "Descriptor ty idf cp rels"
  from "1.prems" obtain n a where "next_number Sys ty (alloc_state st) = Some (n, a)"
    by (metis option.exhaust surj_pair)
  then have "new_fields Sys ?d ovs row st \<noteq> None"
    by (simp add: new_fields_def Let_def split: option.splits)
  then obtain nid fs st1 where nf: "new_fields Sys ?d ovs row st = Some (nid, fs, st1)"
    by (metis option.exhaust surj_pair)
  from "1.IH" [OF nf refl refl "1.prems"] nf show ?case by auto
next
  case (2 Sys X sid nid st)
  then show ?case by simp
next
  case (3 Sys X rn cd fk rs sid nid st)
  show ?case
  proof (cases "rn \<in> X")
    case True
    with "3.IH"(1) "3.prems" show ?thesis by simp
  next
    case False
    from "3.IH"(2) [OF False "3.prems"] obtain cs st1 where
      rows: "snapshot_rows Sys X (Relation rn cd fk) nid
               (read_dependents (source_rows Sys) (Relation rn cd fk) sid) st = (Inr cs, st1)"
      by blast
    from "3.IH"(3) [OF False rows [symmetric] refl "3.prems"] rows False show ?thesis by auto
  qed
next
  case (4 Sys X rn cd fk nid st)
  then show ?case by simp
next
  case (5 Sys X rn cd fk nid row rows st)
  from "5.IH"(1) [OF "5.prems"] obtain c st1 where
    node: "snapshot_node Sys X cd [(fk, nid)] row st = (Inr c, st1)" by blast
  from "5.IH"(2) [OF node [symmetric] refl "5.prems"] node show ?case by auto
qed

subsection \<open>Duplication as a whole\<close>

text \<open>
  With a source record, a server that always allocates a number and a target that accepts
  every record, duplication succeeds.
\<close>

lemma duplicate_succeeds:
  assumes "read_record (source_rows Sys) d sid = Some row"
    and "\<forall>ty a. next_number Sys ty a \<noteq> None"
    and "\<forall>ty fs. accepts Sys ty fs"
  shows "\<exists>snap st'. duplicate Sys p d sid st = (Inr snap, st')"
proof -
  from snapshot_succeeds(1) [OF assms(2)] obtain snap st1 where
    a: "snapshot_node Sys (excluded p) d (overrides p) row st = (Inr snap, st1)" by blast
  from insert_nodes_accepted [OF assms(3)] obtain st2 where
    b: "insert_nodes Sys (flatten snap) st1 = (None, st2)" by blast
  from assms(1) a b show ?thesis by (simp add: duplicate_def materialize_def)
qed

lemma duplicate_InrD:
  assumes "duplicate Sys p d sid st = (Inr snap, st')"
  obtains row st1 where
    "read_record (source_rows Sys) d sid = Some row"
    "snapshot_node Sys (excluded p) d (overrides p) row st = (Inr snap, st1)"
    "insert_nodes Sys (flatten snap) st1 = (None, st')"
  using assms
  by (auto simp: duplicate_def materialize_def split: option.splits prod.splits sum.splits)

subsection \<open>The example, computed\<close>

lemma demo_line_L1:
  "read_record (source_rows demo_systems) bom_line ''L1'' =
     Some [(''line'', ''L1''), (''parent'', ''A100''), (''material'', ''M1''), (''upduser'', ''tt'')]"
  by code_simp

lemma demo_first_number:
  "next_number demo_systems (bo_type bom_line) (alloc_state demo_state) = Some (''N1'', [''N2'', ''N3''])"
  by (simp add: demo_systems_def demo_state_def)

lemma demo_accepts: "\<forall>fs. accepts demo_systems (bo_type bom_line) fs"
  by (simp add: demo_systems_def)

lemma demo_duplicate_line:
  "duplicate demo_systems plan_material bom_line ''L1'' demo_state =
     (Inr (Snapshot ''BomLine'' ''L1'' [(''line'', ''N1''), (''parent'', ''A100''), (''material'', ''M9'')] []),
      \<lparr>alloc_state = [''N2'', ''N3''],
       created = [(''BomLine'', [(''line'', ''N1''), (''parent'', ''A100''), (''material'', ''M9'')])]\<rparr>)"
  by code_simp

lemma demo_duplicate_article:
  "duplicate demo_systems plan_A200 article ''A100'' demo_state =
     (Inr (Snapshot ''Article'' ''A100'' [(''id'', ''A200''), (''desc'', ''Widget'')]
        [(''bom'',
          [Snapshot ''BomLine'' ''L1'' [(''line'', ''N1''), (''parent'', ''A200''), (''material'', ''M1'')] [],
           Snapshot ''BomLine'' ''L2'' [(''line'', ''N2''), (''parent'', ''A200''), (''material'', ''M2'')] []])]),
      \<lparr>alloc_state = [''N3''],
       created =
         [(''Article'', [(''id'', ''A200''), (''desc'', ''Widget'')]),
          (''BomLine'', [(''line'', ''N1''), (''parent'', ''A200''), (''material'', ''M1'')]),
          (''BomLine'', [(''line'', ''N2''), (''parent'', ''A200''), (''material'', ''M2'')])]\<rparr>)"
  by code_simp

subsection \<open>Duplication of a record without dependent relations\<close>

text \<open>
  Claim C1. For a descriptor with no dependent relations and any plan: when the source
  record exists, the server allocates a number where the plan gives none for the
  identifier field, and the target accepts records of this type, duplication creates
  exactly one target record. Each copyable field of it that the plan does not override
  and that is not the identifier field has the source's value, each overridden field has
  the plan's value, and without an override for the identifier field the identifier is
  the one \<open>next_number\<close> returned for the descriptor's type.
\<close>

theorem duplicate_without_relations:
  assumes "relations d = []"
    and "read_record (source_rows Sys) d sid = Some row"
    and "map_of (overrides p) (id_field d) = None \<Longrightarrow>
           next_number Sys (bo_type d) (alloc_state st) = Some (n, a)"
    and "\<forall>fs. accepts Sys (bo_type d) fs"
  shows "\<exists>fs st'.
           duplicate Sys p d sid st = (Inr (Snapshot (bo_type d) (source_id d row) fs []), st') \<and>
           created st' = created st @ [(bo_type d, fs)] \<and>
           (\<forall>f \<in> set (copyable d). map_of (overrides p) f = None \<longrightarrow> f \<noteq> id_field d \<longrightarrow>
              map_of fs f = map_of row f) \<and>
           (\<forall>f v. map_of (overrides p) f = Some v \<longrightarrow> map_of fs f = Some v) \<and>
           (map_of (overrides p) (id_field d) = None \<longrightarrow> map_of fs (id_field d) = Some n)"
proof -
  obtain ty idf cp rels where d: "d = Descriptor ty idf cp rels" by (cases d)
  with assms(1) have rels: "rels = []" by simp
  have "new_fields Sys d (overrides p) row st \<noteq> None"
    using assms(3) by (auto simp: new_fields_def Let_def split: option.splits)
  then obtain nid fs st1 where nf: "new_fields Sys d (overrides p) row st = Some (nid, fs, st1)"
    by (metis option.exhaust surj_pair)
  have node: "snapshot_node Sys (excluded p) d (overrides p) row st =
                (Inr (Snapshot (bo_type d) (source_id d row) fs []), st1)"
    using nf by (simp add: d rels)
  have acc: "accepts Sys ty fs" using assms(4) d by simp
  have cr: "created st1 = created st" using new_fields_SomeD(5) [OF nf] by simp
  let ?st' = "st1\<lparr>created := created st1 @ [(ty, fs)]\<rparr>"
  have dup: "duplicate Sys p d sid st = (Inr (Snapshot (bo_type d) (source_id d row) fs []), ?st')"
    using assms(2) node acc by (simp add: duplicate_def materialize_def d)
  have copied: "\<forall>f \<in> set (copyable d). map_of (overrides p) f = None \<longrightarrow> f \<noteq> id_field d \<longrightarrow>
                  map_of fs f = map_of row f"
    using new_fields_SomeD(3) [OF nf] by simp
  have over: "\<forall>f v. map_of (overrides p) f = Some v \<longrightarrow> map_of fs f = Some v"
    using new_fields_SomeD(2) [OF nf] by blast
  have ident: "map_of (overrides p) (id_field d) = None \<longrightarrow> map_of fs (id_field d) = Some n"
  proof
    assume none: "map_of (overrides p) (id_field d) = None"
    from new_fields_SomeD(4) [OF nf none] assms(3) [OF none] have "nid = n" by simp
    with new_fields_SomeD(1) [OF nf] show "map_of fs (id_field d) = Some n" by simp
  qed
  from dup cr copied over ident show ?thesis using d by auto
qed

theorem duplicate_without_relations_witness:
  "relations bom_line = [] \<and>
   read_record (source_rows demo_systems) bom_line ''L1'' =
     Some [(''line'', ''L1''), (''parent'', ''A100''), (''material'', ''M1''), (''upduser'', ''tt'')] \<and>
   next_number demo_systems (bo_type bom_line) (alloc_state demo_state) = Some (''N1'', [''N2'', ''N3'']) \<and>
   (\<forall>fs. accepts demo_systems (bo_type bom_line) fs) \<and>
   (\<exists>fs st'.
      duplicate demo_systems plan_material bom_line ''L1'' demo_state =
        (Inr (Snapshot (bo_type bom_line)
           (source_id bom_line [(''line'', ''L1''), (''parent'', ''A100''), (''material'', ''M1''), (''upduser'', ''tt'')])
           fs []), st') \<and>
      created st' = created demo_state @ [(bo_type bom_line, fs)] \<and>
      (\<forall>f \<in> set (copyable bom_line). map_of (overrides plan_material) f = None \<longrightarrow> f \<noteq> id_field bom_line \<longrightarrow>
         map_of fs f = map_of [(''line'', ''L1''), (''parent'', ''A100''), (''material'', ''M1''), (''upduser'', ''tt'')] f) \<and>
      (\<forall>f v. map_of (overrides plan_material) f = Some v \<longrightarrow> map_of fs f = Some v) \<and>
      (map_of (overrides plan_material) (id_field bom_line) = None \<longrightarrow> map_of fs (id_field bom_line) = Some ''N1'')) \<and>
   duplicate demo_systems plan_material bom_line ''L1'' demo_state =
     (Inr (Snapshot ''BomLine'' ''L1'' [(''line'', ''N1''), (''parent'', ''A100''), (''material'', ''M9'')] []),
      \<lparr>alloc_state = [''N2'', ''N3''],
       created = [(''BomLine'', [(''line'', ''N1''), (''parent'', ''A100''), (''material'', ''M9'')])]\<rparr>)"
proof -
  have h1: "relations bom_line = []" by (simp add: bom_line_def)
  note c = duplicate_without_relations
             [of bom_line demo_systems "''L1''" _ plan_material demo_state "''N1''" "[''N2'', ''N3'']",
              OF h1 demo_line_L1 demo_first_number demo_accepts]
  show ?thesis
    by (intro conjI) (rule h1 demo_line_L1 demo_first_number demo_accepts c demo_duplicate_line)+
qed

subsection \<open>Duplication with dependent relations\<close>

lemma deep_duplicate_article:
  "duplicate deep_systems plan_A200 article_deep ''A100'' deep_state =
     (Inr (Snapshot ''Article'' ''A100'' [(''id'', ''A200''), (''desc'', ''Widget'')]
        [(''bom'',
          [Snapshot ''BomLine'' ''L1'' [(''line'', ''N1''), (''parent'', ''A200''), (''material'', ''M1'')]
             [(''subs'',
               [Snapshot ''SubLine'' ''S1'' [(''sub'', ''N2''), (''line'', ''N1''), (''note'', ''x'')] [],
                Snapshot ''SubLine'' ''S3'' [(''sub'', ''N3''), (''line'', ''N1''), (''note'', ''z'')] []])],
           Snapshot ''BomLine'' ''L2'' [(''line'', ''N4''), (''parent'', ''A200''), (''material'', ''M2'')]
             [(''subs'',
               [Snapshot ''SubLine'' ''S2'' [(''sub'', ''N5''), (''line'', ''N4''), (''note'', ''y'')] []])]]),
         (''plan'',
          [Snapshot ''Operation'' ''O1'' [(''op'', ''N6''), (''article'', ''A200''), (''step'', ''saw'')] []])]),
      \<lparr>alloc_state = [''N7''],
       created =
         [(''Article'', [(''id'', ''A001''), (''desc'', ''Old'')]),
          (''Article'', [(''id'', ''A200''), (''desc'', ''Widget'')]),
          (''BomLine'', [(''line'', ''N1''), (''parent'', ''A200''), (''material'', ''M1'')]),
          (''SubLine'', [(''sub'', ''N2''), (''line'', ''N1''), (''note'', ''x'')]),
          (''SubLine'', [(''sub'', ''N3''), (''line'', ''N1''), (''note'', ''z'')]),
          (''BomLine'', [(''line'', ''N4''), (''parent'', ''A200''), (''material'', ''M2'')]),
          (''SubLine'', [(''sub'', ''N5''), (''line'', ''N4''), (''note'', ''y'')]),
          (''Operation'', [(''op'', ''N6''), (''article'', ''A200''), (''step'', ''saw'')])]\<rparr>)"
  by code_simp

lemma deep_tree_size: "tree_size (source_rows deep_systems) (excluded plan_A200) article_deep ''A100'' = 7"
  by code_simp

text \<open>
  Claim C2. Whenever duplication succeeds, the records it has created on the target are
  a depth-first copy of the source tree (\<open>copy_ok\<close>): after the copy of the record
  itself come, for each relation the plan includes and for each source dependent of that
  relation, one target dependent record with its foreign-key field equal to the new
  identifier of its parent, followed by the records of that dependent's own tree, and
  nothing else; there are as many new records as the tree has source records. The
  scenario of the specification (article \<open>A100\<close>, two lines, plan \<open>{id: A200}\<close>) and
  a source of three levels with two relations are the instances computed below.
\<close>

theorem duplicate_copies_dependents:
  assumes "duplicate Sys p d sid st = (Inr snap, st')"
  shows "\<exists>recs. created st' = created st @ recs \<and>
                length recs = tree_size (source_rows Sys) (excluded p) d sid \<and>
                copy_ok (source_rows Sys) (excluded p) d sid recs"
proof -
  from assms obtain row st1 where
    found: "read_record (source_rows Sys) d sid = Some row"
    and node: "snapshot_node Sys (excluded p) d (overrides p) row st = (Inr snap, st1)"
    and ins: "insert_nodes Sys (flatten snap) st1 = (None, st')"
    by (rule duplicate_InrD)
  from read_record_SomeD(2) [OF found] have sid: "source_id d row = sid"
    by (simp add: source_id_def)
  from snapshot_copy_ok(1) [OF node]
  have "copy_ok (source_rows Sys) (excluded p) d sid (map target_of (flatten snap))"
    and "length (map target_of (flatten snap)) = tree_size (source_rows Sys) (excluded p) d sid"
    by (simp_all add: sid)
  moreover from snapshot_creates_nothing(1) [OF node] have "created st1 = created st" .
  moreover from insert_nodes_None [OF ins]
  have "created st' = created st1 @ map target_of (flatten snap)" by simp
  ultimately show ?thesis by auto
qed

theorem duplicate_copies_dependents_witness:
  "duplicate demo_systems plan_A200 article ''A100'' demo_state =
     (Inr (Snapshot ''Article'' ''A100'' [(''id'', ''A200''), (''desc'', ''Widget'')]
        [(''bom'',
          [Snapshot ''BomLine'' ''L1'' [(''line'', ''N1''), (''parent'', ''A200''), (''material'', ''M1'')] [],
           Snapshot ''BomLine'' ''L2'' [(''line'', ''N2''), (''parent'', ''A200''), (''material'', ''M2'')] []])]),
      \<lparr>alloc_state = [''N3''],
       created =
         [(''Article'', [(''id'', ''A200''), (''desc'', ''Widget'')]),
          (''BomLine'', [(''line'', ''N1''), (''parent'', ''A200''), (''material'', ''M1'')]),
          (''BomLine'', [(''line'', ''N2''), (''parent'', ''A200''), (''material'', ''M2'')])]\<rparr>) \<and>
   (\<exists>recs.
      created
        \<lparr>alloc_state = [''N3''],
         created =
           [(''Article'', [(''id'', ''A200''), (''desc'', ''Widget'')]),
            (''BomLine'', [(''line'', ''N1''), (''parent'', ''A200''), (''material'', ''M1'')]),
            (''BomLine'', [(''line'', ''N2''), (''parent'', ''A200''), (''material'', ''M2'')])]\<rparr> =
        created demo_state @ recs \<and>
      length recs = tree_size (source_rows demo_systems) (excluded plan_A200) article ''A100'' \<and>
      copy_ok (source_rows demo_systems) (excluded plan_A200) article ''A100'' recs) \<and>
   duplicate deep_systems plan_A200 article_deep ''A100'' deep_state =
     (Inr (Snapshot ''Article'' ''A100'' [(''id'', ''A200''), (''desc'', ''Widget'')]
        [(''bom'',
          [Snapshot ''BomLine'' ''L1'' [(''line'', ''N1''), (''parent'', ''A200''), (''material'', ''M1'')]
             [(''subs'',
               [Snapshot ''SubLine'' ''S1'' [(''sub'', ''N2''), (''line'', ''N1''), (''note'', ''x'')] [],
                Snapshot ''SubLine'' ''S3'' [(''sub'', ''N3''), (''line'', ''N1''), (''note'', ''z'')] []])],
           Snapshot ''BomLine'' ''L2'' [(''line'', ''N4''), (''parent'', ''A200''), (''material'', ''M2'')]
             [(''subs'',
               [Snapshot ''SubLine'' ''S2'' [(''sub'', ''N5''), (''line'', ''N4''), (''note'', ''y'')] []])]]),
         (''plan'',
          [Snapshot ''Operation'' ''O1'' [(''op'', ''N6''), (''article'', ''A200''), (''step'', ''saw'')] []])]),
      \<lparr>alloc_state = [''N7''],
       created =
         [(''Article'', [(''id'', ''A001''), (''desc'', ''Old'')]),
          (''Article'', [(''id'', ''A200''), (''desc'', ''Widget'')]),
          (''BomLine'', [(''line'', ''N1''), (''parent'', ''A200''), (''material'', ''M1'')]),
          (''SubLine'', [(''sub'', ''N2''), (''line'', ''N1''), (''note'', ''x'')]),
          (''SubLine'', [(''sub'', ''N3''), (''line'', ''N1''), (''note'', ''z'')]),
          (''BomLine'', [(''line'', ''N4''), (''parent'', ''A200''), (''material'', ''M2'')]),
          (''SubLine'', [(''sub'', ''N5''), (''line'', ''N4''), (''note'', ''y'')]),
          (''Operation'', [(''op'', ''N6''), (''article'', ''A200''), (''step'', ''saw'')])]\<rparr>) \<and>
   (\<exists>recs.
      created
        \<lparr>alloc_state = [''N7''],
         created =
           [(''Article'', [(''id'', ''A001''), (''desc'', ''Old'')]),
            (''Article'', [(''id'', ''A200''), (''desc'', ''Widget'')]),
            (''BomLine'', [(''line'', ''N1''), (''parent'', ''A200''), (''material'', ''M1'')]),
            (''SubLine'', [(''sub'', ''N2''), (''line'', ''N1''), (''note'', ''x'')]),
            (''SubLine'', [(''sub'', ''N3''), (''line'', ''N1''), (''note'', ''z'')]),
            (''BomLine'', [(''line'', ''N4''), (''parent'', ''A200''), (''material'', ''M2'')]),
            (''SubLine'', [(''sub'', ''N5''), (''line'', ''N4''), (''note'', ''y'')]),
            (''Operation'', [(''op'', ''N6''), (''article'', ''A200''), (''step'', ''saw'')])]\<rparr> =
        created deep_state @ recs \<and>
      length recs = tree_size (source_rows deep_systems) (excluded plan_A200) article_deep ''A100'' \<and>
      copy_ok (source_rows deep_systems) (excluded plan_A200) article_deep ''A100'' recs) \<and>
   tree_size (source_rows deep_systems) (excluded plan_A200) article_deep ''A100'' = 7"
proof -
  note c1 = duplicate_copies_dependents [OF demo_duplicate_article]
  note c2 = duplicate_copies_dependents [OF deep_duplicate_article]
  show ?thesis
    by (intro conjI) (rule demo_duplicate_article deep_duplicate_article c1 c2 deep_tree_size)+
qed

end
